theory Spec2Isabelle
  imports Complex_Main "HOL-Library.Word"
begin

unbundle bit_operations_syntax

section \<open>Machine types and memory\<close>

text \<open>
  The updater runs on a 32-bit little-endian ARM Cortex-M0 (LPC11xx): \<open>unsigned int\<close> is
  a 32-bit word whose arithmetic wraps, \<open>unsigned char\<close> is a byte.  A C array or a
  pointer into RAM is a function from the index to the byte found there, so that a read
  \<open>p[i]\<close> is defined for every index, as it is for the machine.  The memory-mapped
  address space that holds the flash is a function from the 32-bit address to the byte
  stored there.
\<close>

type_synonym u8 = "8 word"
type_synonym u32 = "32 word"
type_synonym buffer = "nat \<Rightarrow> u8"
type_synonym memory = "u32 \<Rightarrow> u8"

text \<open>\<open>n\<close> successive bytes of an array starting at index \<open>off\<close>.\<close>

definition bytes_of :: "buffer \<Rightarrow> nat \<Rightarrow> nat \<Rightarrow> u8 list" where
  "bytes_of buf off n = map (\<lambda>i. buf (off + i)) [0..<n]"

text \<open>\<open>n\<close> successive bytes read through a pointer \<open>(unsigned char *) a\<close>; the address
  is a 32-bit value and wraps.\<close>

definition mem_bytes :: "memory \<Rightarrow> u32 \<Rightarrow> nat \<Rightarrow> u8 list" where
  "mem_bytes m a n = map (\<lambda>i. m (a + of_nat i)) [0..<n]"

text \<open>\<open>memcpy (buf + off, src, length src)\<close>.\<close>

fun memcpy :: "buffer \<Rightarrow> nat \<Rightarrow> u8 list \<Rightarrow> buffer" where
  "memcpy buf off [] = buf"
| "memcpy buf off (b # bs) = memcpy (buf(off := b)) (Suc off) bs"

text \<open>A 32-bit load \<open>*(unsigned int *) a\<close> and the four bytes of an \<open>unsigned int\<close> as
  \<open>memcpy\<close> sees them, both in the byte order of the target (little-endian).\<close>

definition load_u32 :: "memory \<Rightarrow> u32 \<Rightarrow> u32" where
  "load_u32 m a =
     ucast (m a) OR push_bit 8 (ucast (m (a + 1))) OR
     push_bit 16 (ucast (m (a + 2))) OR push_bit 24 (ucast (m (a + 3)))"

definition buf_u32 :: "buffer \<Rightarrow> nat \<Rightarrow> u32" where
  "buf_u32 buf off =
     ucast (buf off) OR push_bit 8 (ucast (buf (off + 1))) OR
     push_bit 16 (ucast (buf (off + 2))) OR push_bit 24 (ucast (buf (off + 3)))"

definition u32_bytes :: "u32 \<Rightarrow> u8 list" where
  "u32_bytes w = [ucast w, ucast (drop_bit 8 w), ucast (drop_bit 16 w), ucast (drop_bit 24 w)]"

section \<open>Constants of update.cpp\<close>

definition UPD_ERASE_SECTOR :: u8 where "UPD_ERASE_SECTOR = 0"
definition UPD_SEND_DATA :: u8 where "UPD_SEND_DATA = 1"
definition UPD_PROGRAM :: u8 where "UPD_PROGRAM = 2"
definition UPD_UPDATE_BOOT_DESC :: u8 where "UPD_UPDATE_BOOT_DESC = 3"
definition UPD_REQ_DATA :: u8 where "UPD_REQ_DATA = 10"
definition UPD_GET_LAST_ERROR :: u8 where "UPD_GET_LAST_ERROR = 20"
definition UPD_SEND_LAST_ERROR :: u8 where "UPD_SEND_LAST_ERROR = 21"
definition UPD_UNLOCK_DEVICE :: u8 where "UPD_UNLOCK_DEVICE = 30"
definition UPD_REQUEST_UID :: u8 where "UPD_REQUEST_UID = 31"
definition UPD_RESPONSE_UID :: u8 where "UPD_RESPONSE_UID = 32"
definition UPD_APP_VERSION_REQUEST :: u8 where "UPD_APP_VERSION_REQUEST = 33"
definition UPD_APP_VERSION_RESPONSE :: u8 where "UPD_APP_VERSION_RESPONSE = 34"
definition UPD_SET_EMULATION :: u8 where "UPD_SET_EMULATION = 100"

definition DEVICE_LOCKED :: u32 where "DEVICE_LOCKED = 0x5AA55AA5"
definition DEVICE_UNLOCKED :: u32 where "DEVICE_UNLOCKED = NOT DEVICE_LOCKED"

text \<open>\<open>enum UPD_Status\<close>: the first enumerator is 0x100 and the following ones count up.\<close>

definition UDP_UNKONW_COMMAND :: u32 where "UDP_UNKONW_COMMAND = 0x100"
definition UDP_CRC_EROR :: u32 where "UDP_CRC_EROR = 0x101"
definition UPD_ADDRESS_NOT_ALLOWED_TO_FLASH :: u32 where "UPD_ADDRESS_NOT_ALLOWED_TO_FLASH = 0x102"
definition UPD_SECTOR_NOT_ALLOWED_TO_ERASE :: u32 where "UPD_SECTOR_NOT_ALLOWED_TO_ERASE = 0x103"
definition UPD_RAM_BUFFER_OVERFLOW :: u32 where "UPD_RAM_BUFFER_OVERFLOW = 0x104"
definition UPD_WRONG_DESCRIPTOR_BLOCK :: u32 where "UPD_WRONG_DESCRIPTOR_BLOCK = 0x105"
definition UPD_APPLICATION_NOT_STARTABLE :: u32 where "UPD_APPLICATION_NOT_STARTABLE = 0x106"
definition UPD_DEVICE_LOCKED :: u32 where "UPD_DEVICE_LOCKED = 0x107"
definition UPD_UID_MISSMATCH :: u32 where "UPD_UID_MISSMATCH = 0x108"
definition UDP_NOT_IMPLEMENTED :: u32 where "UDP_NOT_IMPLEMENTED = 0xFFFF"

text \<open>Modelled from the spec: \<open>IAP_SUCCESS\<close> is declared in sblib/internal/iap.h, which
  is not among the sources.  It is the code that the spec calls \<open>SUCCESS\<close>, the first
  of the status codes of the flash driver, which count from 0; the error codes of
  update.cpp start at 0x100 to stay clear of them.\<close>

definition IAP_SUCCESS :: u32 where "IAP_SUCCESS = 0"

text \<open>The two transport answers \<open>T_ACK_PDU\<close> and \<open>T_NACK_PDU\<close> of sblib/eib/apci.h.\<close>

datatype pdu = T_ACK_PDU | T_NACK_PDU

text \<open>\<open>sizeof(ramBuffer)\<close>.\<close>

definition sizeof_ramBuffer :: u32 where "sizeof_ramBuffer = 4096"

section \<open>What the updater calls but does not define\<close>

text \<open>
  The flash driver (IAP), the CRC routine, the program button and the constants of the
  linker script and of boot_descriptor_block.h are outside update.cpp.  They are the
  fields of an environment that every function of the model takes as a parameter:
  \<open>progPinStatus\<close> is what \<open>progPinStatus()\<close> returns (the code takes false as "the
  operator holds the button"), an IAP call maps the memory to a status and the memory
  after the call, \<open>iapReadUID\<close> gives a status and the content of the buffer it was
  handed, \<open>crc32 seed bytes\<close> is the checksum routine, \<open>vectors_start\<close> and
  \<open>etext\<close> are the values that the code reads from \<open>__vectors_start__\<close> and
  \<open>_etext\<close>.
\<close>

record env =
  progPinStatus :: bool
  iapReadUID :: "u32 \<times> buffer"
  iapEraseSector :: "memory \<Rightarrow> u32 \<Rightarrow> u32 \<times> memory"
  iapErasePage :: "memory \<Rightarrow> u32 \<Rightarrow> u32 \<times> memory"
  iapProgram :: "memory \<Rightarrow> u32 \<Rightarrow> u8 list \<Rightarrow> u32 \<times> memory"
  crc32 :: "u32 \<Rightarrow> u8 list \<Rightarrow> u32"
  vectors_start :: u32
  etext :: u32
  FIRST_SECTOR :: u32
  BOOT_BLOCK_SIZE :: u32
  BOOT_BLOCK_PAGE :: u32

section \<open>boot_descriptor_block.c\<close>

text \<open>Modelled from the spec: the struct \<open>AppDescriptionBlock\<close> is declared in
  boot_descriptor_block.h, which is not among the sources.  Its fields are, in this
  order, the four 32-bit values \<open>startAddress\<close>, \<open>endAddress\<close>, \<open>crc\<close> and
  \<open>appVersionAddress\<close>.\<close>

record AppDescriptionBlock =
  startAddress :: u32
  endAddress :: u32
  crc :: u32
  appVersionAddress :: u32

text \<open>The cast \<open>(AppDescriptionBlock *) ramBuffer\<close> and the cast of a flash address to
  the same pointer type.\<close>

definition block_of_buffer :: "buffer \<Rightarrow> AppDescriptionBlock" where
  "block_of_buffer buf =
     \<lparr>startAddress = buf_u32 buf 0, endAddress = buf_u32 buf 4,
      crc = buf_u32 buf 8, appVersionAddress = buf_u32 buf 12\<rparr>"

definition block_of_memory :: "memory \<Rightarrow> u32 \<Rightarrow> AppDescriptionBlock" where
  "block_of_memory m a =
     \<lparr>startAddress = load_u32 m a, endAddress = load_u32 m (a + 4),
      crc = load_u32 m (a + 8), appVersionAddress = load_u32 m (a + 12)\<rparr>"

text \<open>The loop of \<open>checkVectorTable\<close>: \<open>i\<close> counts to 8 while \<open>address\<close> walks over
  32-bit words and \<open>cs\<close> accumulates them.\<close>

fun checkVectorTable_loop :: "memory \<Rightarrow> nat \<Rightarrow> u32 \<Rightarrow> u32 \<Rightarrow> u32" where
  "checkVectorTable_loop m 0 address cs = cs"
| "checkVectorTable_loop m (Suc k) address cs =
     checkVectorTable_loop m k (address + 4) (cs + load_u32 m address)"

definition checkVectorTable :: "memory \<Rightarrow> u32 \<Rightarrow> bool" where
  "checkVectorTable m start = (checkVectorTable_loop m 8 start 0 = 0)"

definition checkApplication :: "env \<Rightarrow> memory \<Rightarrow> AppDescriptionBlock \<Rightarrow> bool" where
  "checkApplication e m block =
     (if startAddress block > 0x5000 then False
      else if endAddress block > 0x100000 then False
      else if startAddress block = endAddress block then False
      else if crc32 e 0xFFFFFFFF
                (mem_bytes m (startAddress block)
                   (unat (endAddress block - startAddress block))) = crc block
           then checkVectorTable m (startAddress block)
      else False)"

definition getAppVersion :: "AppDescriptionBlock \<Rightarrow> u32" where
  "getAppVersion block = appVersionAddress block"

section \<open>update.cpp\<close>

text \<open>\<open>streamToUIn32 (buffer + off)\<close>: four bytes, most significant first.\<close>

definition streamToUIn32 :: "buffer \<Rightarrow> nat \<Rightarrow> u32" where
  "streamToUIn32 buffer off =
     push_bit 24 (ucast (buffer off)) OR push_bit 16 (ucast (buffer (off + 1))) OR
     push_bit 8 (ucast (buffer (off + 2))) OR ucast (buffer (off + 3))"

text \<open>\<open>_prepareReturnTelegram\<close> writes five bytes of \<open>bcu->sendTelegram\<close>; the
  \<open>unsigned int\<close> results are cut to a byte by the assignment.\<close>

definition prepareReturnTelegram :: "u32 \<Rightarrow> u8 \<Rightarrow> buffer \<Rightarrow> buffer" where
  "prepareReturnTelegram count cmd tel =
     tel(5 := ucast (0x63 + count), 6 := 0x42, 7 := ucast (0x40 OR count), 8 := 0, 9 := cmd)"

definition ADDRESS2SECTOR :: "u32 \<Rightarrow> u32" where
  "ADDRESS2SECTOR a = (a + 4095) div 4096"

definition sectorAllowedToErease :: "env \<Rightarrow> u32 \<Rightarrow> bool" where
  "sectorAllowedToErease e sectorNumber =
     (if sectorNumber = 0 then False
      else \<not> (sectorNumber \<ge> ADDRESS2SECTOR (vectors_start e)
              \<and> sectorNumber \<le> ADDRESS2SECTOR (etext e)))"

definition addressAllowedToProgram :: "env \<Rightarrow> u32 \<Rightarrow> u32 \<Rightarrow> bool" where
  "addressAllowedToProgram e start len =
     (let end = start + len
      in \<not> (start \<ge> vectors_start e \<and> end \<le> etext e))"

text \<open>
  The static variables of \<open>handleMemoryRequests\<close> (\<open>ramLocation\<close>, \<open>deviceLocked\<close>,
  \<open>lastError\<close>), the global \<open>ramBuffer\<close>, the memory that the IAP calls change, the
  telegram under construction, the flag behind \<open>sendTel\<close> and the info LED make up the
  state.  Index \<open>i < 4096\<close> of \<open>ramBuffer\<close> is the array; a read at a higher index gets
  the RAM that follows the array.
\<close>

record state =
  ramBuffer :: buffer
  ramLocation :: u32
  deviceLocked :: u32
  lastError :: u32
  flash :: memory
  sendTelegram :: buffer
  sendTel :: bool
  PIN_INFO :: bool

text \<open>The loop of the unlock command: twelve positions, no early exit; a mismatch stores
  \<open>UPD_UID_MISSMATCH\<close> into \<open>lastError\<close>.\<close>

definition uid_loop :: "buffer \<Rightarrow> buffer \<Rightarrow> u32 \<Rightarrow> u32" where
  "uid_loop data uid le =
     fold (\<lambda>i le. if data (i + 3) \<noteq> uid i then UPD_UID_MISSMATCH else le) [0..<12] le"

text \<open>\<open>case UPD_UNLOCK_DEVICE\<close>\<close>

definition unlock_device :: "env \<Rightarrow> state \<Rightarrow> buffer \<Rightarrow> state" where
  "unlock_device e s data =
     (if \<not> progPinStatus e
      then s\<lparr>deviceLocked := DEVICE_UNLOCKED, lastError := IAP_SUCCESS\<rparr>
      else
        let (st, uid) = iapReadUID e;
            s1 = (if IAP_SUCCESS = st then s\<lparr>lastError := uid_loop data uid (lastError s)\<rparr>
                  else s)
        in if lastError s1 \<noteq> UPD_UID_MISSMATCH
           then s1\<lparr>deviceLocked := DEVICE_UNLOCKED, lastError := IAP_SUCCESS\<rparr>
           else s1)"

text \<open>\<open>case UPD_REQUEST_UID\<close>\<close>

definition request_uid :: "env \<Rightarrow> state \<Rightarrow> buffer \<Rightarrow> state" where
  "request_uid e s data =
     (if \<not> progPinStatus e
      then
        let (st, uid) = iapReadUID e;
            s1 = s\<lparr>lastError := st\<rparr>
        in if lastError s1 = IAP_SUCCESS
           then s1\<lparr>sendTel := True,
                   sendTelegram :=
                     memcpy (prepareReturnTelegram 12 UPD_RESPONSE_UID (sendTelegram s1)) 10
                       (bytes_of uid 0 12)\<rparr>
           else s1
      else s\<lparr>lastError := UPD_DEVICE_LOCKED\<rparr>)"

text \<open>\<open>case UPD_APP_VERSION_REQUEST\<close>\<close>

definition app_version_request :: "env \<Rightarrow> state \<Rightarrow> buffer \<Rightarrow> state" where
  "app_version_request e s data =
     (let appversion = getAppVersion (block_of_memory (flash s)
            (FIRST_SECTOR e - (1 + ucast (data 3)) * BOOT_BLOCK_SIZE e))
      in if appversion < 0x50000
         then s\<lparr>sendTel := True,
                sendTelegram :=
                  memcpy (prepareReturnTelegram 12 UPD_APP_VERSION_RESPONSE (sendTelegram s)) 10
                    (mem_bytes (flash s) appversion 12),
                lastError := IAP_SUCCESS\<rparr>
         else s\<lparr>lastError := UPD_APPLICATION_NOT_STARTABLE\<rparr>)"

text \<open>\<open>case UPD_ERASE_SECTOR\<close>\<close>

definition erase_sector :: "env \<Rightarrow> state \<Rightarrow> buffer \<Rightarrow> state" where
  "erase_sector e s data =
     (let s1 =
        (if deviceLocked s = DEVICE_UNLOCKED
         then if sectorAllowedToErease e (ucast (data 3))
              then let (st, fl) = iapEraseSector e (flash s) (ucast (data 3))
                   in s\<lparr>lastError := st, flash := fl\<rparr>
              else s\<lparr>lastError := UPD_SECTOR_NOT_ALLOWED_TO_ERASE\<rparr>
         else s\<lparr>lastError := UPD_DEVICE_LOCKED\<rparr>)
      in s1\<lparr>ramLocation := 0\<rparr>)"

text \<open>\<open>case UPD_SEND_DATA\<close>; \<open>count\<close> is \<open>data[0] & 0x0f\<close>.  The checksum that this
  case computes into the local \<open>crc\<close> is never read.\<close>

definition send_data :: "env \<Rightarrow> state \<Rightarrow> buffer \<Rightarrow> state" where
  "send_data e s data =
     (let count = (ucast (data 0 AND 0x0f) :: u32)
      in if deviceLocked s = DEVICE_UNLOCKED
         then if ramLocation s + count < sizeof_ramBuffer
              then s\<lparr>ramBuffer :=
                       memcpy (ramBuffer s) (unat (ramLocation s)) (bytes_of data 3 (unat count)),
                     ramLocation := ramLocation s + count,
                     lastError := IAP_SUCCESS\<rparr>
              else s\<lparr>lastError := UPD_RAM_BUFFER_OVERFLOW\<rparr>
         else s\<lparr>lastError := UPD_DEVICE_LOCKED\<rparr>)"

text \<open>\<open>case UPD_PROGRAM\<close>\<close>

definition program :: "env \<Rightarrow> state \<Rightarrow> buffer \<Rightarrow> state" where
  "program e s data =
     (let s1 =
        (if deviceLocked s = DEVICE_UNLOCKED
         then
           let count = streamToUIn32 data 3;
               address = streamToUIn32 data (3 + 4)
           in if addressAllowedToProgram e address count
              then
                let crc = crc32 e 0xFFFFFFFF (bytes_of (ramBuffer s) 0 (unat count))
                in if crc = streamToUIn32 data (3 + 4 + 4)
                   then let (st, fl) = iapProgram e (flash s) address
                                         (bytes_of (ramBuffer s) 0 (unat count))
                        in s\<lparr>lastError := st, flash := fl\<rparr>
                   else s\<lparr>lastError := UDP_CRC_EROR\<rparr>
              else s\<lparr>lastError := UPD_ADDRESS_NOT_ALLOWED_TO_FLASH\<rparr>
         else s\<lparr>lastError := UPD_DEVICE_LOCKED\<rparr>)
      in s1\<lparr>ramLocation := 0\<rparr>)"

text \<open>\<open>case UPD_UPDATE_BOOT_DESC\<close>\<close>

definition update_boot_desc :: "env \<Rightarrow> state \<Rightarrow> buffer \<Rightarrow> state" where
  "update_boot_desc e s data =
     (let s1 =
        (if deviceLocked s = DEVICE_UNLOCKED
         then
           let crc = crc32 e 0xFFFFFFFF (bytes_of (ramBuffer s) 0 256);
               address = FIRST_SECTOR e - (1 + ucast (data 7)) * BOOT_BLOCK_SIZE e
           in if crc = streamToUIn32 data 3
              then if checkApplication e (flash s) (block_of_buffer (ramBuffer s))
                   then
                     let (st, fl) = iapErasePage e (flash s) (BOOT_BLOCK_PAGE e - ucast (data 7));
                         s2 = s\<lparr>lastError := st, flash := fl\<rparr>
                     in if lastError s2 = IAP_SUCCESS
                        then let (st', fl') = iapProgram e (flash s2) address
                                                (bytes_of (ramBuffer s2) 0 256)
                             in s2\<lparr>lastError := st', flash := fl'\<rparr>
                        else s2
                   else s\<lparr>lastError := UPD_APPLICATION_NOT_STARTABLE\<rparr>
              else s\<lparr>lastError := UDP_CRC_EROR\<rparr>
         else s\<lparr>lastError := UPD_DEVICE_LOCKED\<rparr>)
      in s1\<lparr>ramLocation := 0\<rparr>)"

text \<open>\<open>case UPD_REQ_DATA\<close>\<close>

definition req_data :: "env \<Rightarrow> state \<Rightarrow> buffer \<Rightarrow> state" where
  "req_data e s data =
     (if deviceLocked s = DEVICE_UNLOCKED
      then s\<lparr>lastError := UDP_NOT_IMPLEMENTED\<rparr>
      else s\<lparr>lastError := UPD_DEVICE_LOCKED\<rparr>)"

text \<open>\<open>case UPD_GET_LAST_ERROR\<close>\<close>

definition get_last_error :: "env \<Rightarrow> state \<Rightarrow> buffer \<Rightarrow> state" where
  "get_last_error e s data =
     s\<lparr>sendTel := True,
       sendTelegram :=
         memcpy (prepareReturnTelegram 4 UPD_SEND_LAST_ERROR (sendTelegram s)) 10
           (u32_bytes (lastError s)),
       lastError := IAP_SUCCESS\<rparr>"

text \<open>
  The dispatcher, with \<open>ENABLE_EMULATION\<close> and \<open>SERIAL_DEBUG\<close> undefined as in the
  source: the info LED is toggled, \<open>data[2]\<close> selects the case in the order of the
  \<open>switch\<close>, and the answer depends on \<open>lastError\<close>.  The parameter \<open>apciCmd\<close> is not
  used by the body.
\<close>

definition dispatch :: "env \<Rightarrow> state \<Rightarrow> buffer \<Rightarrow> state" where
  "dispatch e s data =
     (let op = data 2
      in if op = UPD_UNLOCK_DEVICE then unlock_device e s data
         else if op = UPD_REQUEST_UID then request_uid e s data
         else if op = UPD_APP_VERSION_REQUEST then app_version_request e s data
         else if op = UPD_ERASE_SECTOR then erase_sector e s data
         else if op = UPD_SEND_DATA then send_data e s data
         else if op = UPD_PROGRAM then program e s data
         else if op = UPD_UPDATE_BOOT_DESC then update_boot_desc e s data
         else if op = UPD_REQ_DATA then req_data e s data
         else if op = UPD_GET_LAST_ERROR then get_last_error e s data
         else s\<lparr>lastError := UDP_UNKONW_COMMAND\<rparr>)"

definition handleMemoryRequests :: "env \<Rightarrow> state \<Rightarrow> buffer \<Rightarrow> pdu \<times> state" where
  "handleMemoryRequests e s data =
     (let s1 = dispatch e (s\<lparr>PIN_INFO := \<not> PIN_INFO s\<rparr>) data
      in if lastError s1 = IAP_SUCCESS then (T_ACK_PDU, s1) else (T_NACK_PDU, s1))"

section \<open>Runs of the updater\<close>

text \<open>
  After reset the statics hold their initialisers: \<open>ramLocation\<close> is 0, \<open>deviceLocked\<close>
  is \<open>DEVICE_LOCKED\<close>, \<open>lastError\<close> is 0.  A state is reachable when frames, each with
  the environment of its moment, lead to it from such a state.
\<close>

definition initial :: "state \<Rightarrow> bool" where
  "initial s \<longleftrightarrow> ramLocation s = 0 \<and> deviceLocked s = DEVICE_LOCKED \<and> lastError s = 0"

inductive reachable :: "state \<Rightarrow> bool" where
  reset: "initial s \<Longrightarrow> reachable s"
| frame: "reachable s \<Longrightarrow> reachable (snd (handleMemoryRequests e s data))"

text \<open>What every reachable state satisfies: the cursor \<open>ramLocation\<close> stays below
  \<open>sizeof(ramBuffer)\<close>, and it is 0 as long as the device has not been unlocked.\<close>

definition cursor_inv :: "state \<Rightarrow> bool" where
  "cursor_inv s \<longleftrightarrow>
     ramLocation s < sizeof_ramBuffer \<and>
     (deviceLocked s \<noteq> DEVICE_UNLOCKED \<longrightarrow> ramLocation s = 0)"

section \<open>A sample device for concrete runs\<close>

text \<open>
  Concrete runs need concrete collaborators.  The sample device has the chip identifier
  11 22 .. CC, an updater that occupies 0x1000 to 0x3FFF, boot descriptor blocks of 256
  bytes below 0x1000, a flash driver that always succeeds (erasing sets bytes to 0xFF,
  programming stores the bytes) and the bitwise CRC-32 with the reflected polynomial
  0xEDB88320.  None of the general theorems depends on these choices.
\<close>

definition frame_of :: "u8 list \<Rightarrow> buffer" where
  "frame_of bs = (\<lambda>i. if i < length bs then bs ! i else 0)"

fun mem_store :: "memory \<Rightarrow> u32 \<Rightarrow> u8 list \<Rightarrow> memory" where
  "mem_store m a [] = m"
| "mem_store m a (b # bs) = mem_store (m(a := b)) (a + 1) bs"

definition mem_fill :: "memory \<Rightarrow> u32 \<Rightarrow> u32 \<Rightarrow> memory" where
  "mem_fill m a n = (\<lambda>x. if x - a < n then 0xFF else m x)"

definition crc32_bit :: "u32 \<Rightarrow> u32" where
  "crc32_bit c = (if c AND 1 = 1 then drop_bit 1 c XOR 0xEDB88320 else drop_bit 1 c)"

definition crc32_byte :: "u8 \<Rightarrow> u32 \<Rightarrow> u32" where
  "crc32_byte b c =
     crc32_bit (crc32_bit (crc32_bit (crc32_bit (crc32_bit (crc32_bit (crc32_bit (crc32_bit
       (c XOR ucast b))))))))"

definition bitwise_crc32 :: "u32 \<Rightarrow> u8 list \<Rightarrow> u32" where
  "bitwise_crc32 seed bs = fold crc32_byte bs seed"

definition sample_uid :: buffer where
  "sample_uid = (\<lambda>i. if i < 12 then of_nat (17 * (i + 1)) else 0)"

definition sample_env :: "bool \<Rightarrow> u32 \<Rightarrow> env" where
  "sample_env pin uid_status =
     \<lparr>progPinStatus = pin,
      iapReadUID = (uid_status, sample_uid),
      iapEraseSector = (\<lambda>m sector. (0, mem_fill m (sector * 4096) 4096)),
      iapErasePage = (\<lambda>m page. (0, mem_fill m (page * 256) 256)),
      iapProgram = (\<lambda>m a bs. (0, mem_store m a bs)),
      crc32 = bitwise_crc32,
      vectors_start = 0x1000,
      etext = 0x3FFF,
      FIRST_SECTOR = 0x1000,
      BOOT_BLOCK_SIZE = 0x100,
      BOOT_BLOCK_PAGE = 0x0F\<rparr>"

definition reset_state :: state where
  "reset_state =
     \<lparr>ramBuffer = (\<lambda>i. 0), ramLocation = 0, deviceLocked = DEVICE_LOCKED, lastError = 0,
      flash = (\<lambda>a. 0xFF), sendTelegram = (\<lambda>i. 0), sendTel = False, PIN_INFO = False\<rparr>"

text \<open>The sample device after the operator has unlocked it with the button held.\<close>

definition unlocked_state :: state where
  "unlocked_state =
     snd (handleMemoryRequests (sample_env False 0) reset_state (frame_of [0, 0, 30]))"

text \<open>An unlock attempt with a wrong last byte of the identifier (button not held), and
  the frame that carries the right identifier.\<close>

definition wrong_uid_frame :: buffer where
  "wrong_uid_frame =
     frame_of [0, 0, 30, 0x11, 0x22, 0x33, 0x44, 0x55, 0x66, 0x77, 0x88, 0x99, 0xAA, 0xBB, 0xCD]"

definition right_uid_frame :: buffer where
  "right_uid_frame =
     frame_of [0, 0, 30, 0x11, 0x22, 0x33, 0x44, 0x55, 0x66, 0x77, 0x88, 0x99, 0xAA, 0xBB, 0xCC]"

definition mismatch_state :: state where
  "mismatch_state = snd (handleMemoryRequests (sample_env True 0) reset_state wrong_uid_frame)"

text \<open>The unlocked sample device after a \<open>SEND_DATA\<close> frame with the three bytes
  AA BB CC, and two \<open>PROGRAM\<close> frames for them (count 3, address 0x5000): one with the
  checksum of the three bytes, one with a checksum that has one bit flipped.\<close>

definition staged_state :: state where
  "staged_state =
     snd (handleMemoryRequests (sample_env True 0) unlocked_state
            (frame_of [3, 0, 1, 0xAA, 0xBB, 0xCC]))"

definition program_frame :: buffer where
  "program_frame = frame_of [0, 0, 2, 0, 0, 0, 3, 0, 0, 0x50, 0, 0x41, 0xB2, 0x07, 0xB3]"

definition bad_crc_frame :: buffer where
  "bad_crc_frame = frame_of [0, 0, 2, 0, 0, 0, 3, 0, 0, 0x50, 0, 0x41, 0xB2, 0x07, 0xB2]"



text \<open>The claims speak of ranges of addresses and of sectors as numbers; these two
  predicates follow their words.  A byte range of \<open>n\<close> bytes from \<open>a\<close> lies wholly in
  the updater when \<open>a\<close> is at or above its start and \<open>a + n\<close>, the sum of the two
  numbers, is at or below its end.  A sector is owned by the updater when it lies
  between the ceilings of start / 4096 and end / 4096.\<close>

definition wholly_in_updater :: "env \<Rightarrow> u32 \<Rightarrow> u32 \<Rightarrow> bool" where
  "wholly_in_updater e a n \<longleftrightarrow>
     unat (vectors_start e) \<le> unat a \<and> unat a + unat n \<le> unat (etext e)"

definition updater_owned :: "env \<Rightarrow> nat \<Rightarrow> bool" where
  "updater_owned e s \<longleftrightarrow>
     \<lceil>real (unat (vectors_start e)) / 4096\<rceil> \<le> int s \<and>
     int s \<le> \<lceil>real (unat (etext e)) / 4096\<rceil>"





section \<open>Facts about the model\<close>

lemmas opcode_defs =
  UPD_ERASE_SECTOR_def UPD_SEND_DATA_def UPD_PROGRAM_def UPD_UPDATE_BOOT_DESC_def
  UPD_REQ_DATA_def UPD_GET_LAST_ERROR_def UPD_SEND_LAST_ERROR_def UPD_UNLOCK_DEVICE_def
  UPD_REQUEST_UID_def UPD_RESPONSE_UID_def UPD_APP_VERSION_REQUEST_def
  UPD_APP_VERSION_RESPONSE_def UPD_SET_EMULATION_def

lemmas status_defs =
  UDP_UNKONW_COMMAND_def UDP_CRC_EROR_def UPD_ADDRESS_NOT_ALLOWED_TO_FLASH_def
  UPD_SECTOR_NOT_ALLOWED_TO_ERASE_def UPD_RAM_BUFFER_OVERFLOW_def
  UPD_WRONG_DESCRIPTOR_BLOCK_def UPD_APPLICATION_NOT_STARTABLE_def UPD_DEVICE_LOCKED_def
  UPD_UID_MISSMATCH_def UDP_NOT_IMPLEMENTED_def


lemma locked_ne: "DEVICE_LOCKED \<noteq> DEVICE_UNLOCKED"
  by (simp add: DEVICE_LOCKED_def DEVICE_UNLOCKED_def)

lemma inv_unlock: "cursor_inv s \<Longrightarrow> cursor_inv (unlock_device e s data)"
  by (simp add: cursor_inv_def unlock_device_def Let_def split: prod.splits)

lemma inv_request_uid: "cursor_inv s \<Longrightarrow> cursor_inv (request_uid e s data)"
  by (simp add: cursor_inv_def request_uid_def Let_def split: prod.splits)

lemma inv_app_version: "cursor_inv s \<Longrightarrow> cursor_inv (app_version_request e s data)"
  by (simp add: cursor_inv_def app_version_request_def Let_def)

lemma inv_erase: "cursor_inv (erase_sector e s data)"
  by (simp add: cursor_inv_def erase_sector_def Let_def sizeof_ramBuffer_def)

lemma inv_send: "cursor_inv s \<Longrightarrow> cursor_inv (send_data e s data)"
  by (simp add: cursor_inv_def send_data_def Let_def sizeof_ramBuffer_def)

lemma inv_program: "cursor_inv (program e s data)"
  by (simp add: cursor_inv_def program_def Let_def sizeof_ramBuffer_def)

lemma inv_boot: "cursor_inv (update_boot_desc e s data)"
  by (simp add: cursor_inv_def update_boot_desc_def Let_def sizeof_ramBuffer_def)

lemma inv_req: "cursor_inv s \<Longrightarrow> cursor_inv (req_data e s data)"
  by (simp add: cursor_inv_def req_data_def sizeof_ramBuffer_def)

lemma inv_get: "cursor_inv s \<Longrightarrow> cursor_inv (get_last_error e s data)"
  by (simp add: cursor_inv_def get_last_error_def)

lemma dispatch_cursor_inv: "cursor_inv s \<Longrightarrow> cursor_inv (dispatch e s data)"
  unfolding dispatch_def Let_def
  by (simp add: inv_unlock inv_request_uid inv_app_version inv_erase inv_send inv_program
      inv_boot inv_req inv_get) (simp add: cursor_inv_def)

lemma handle_cursor_inv: "cursor_inv s \<Longrightarrow> cursor_inv (snd (handleMemoryRequests e s data))"
proof -
  assume a: "cursor_inv s"
  then have "cursor_inv (s\<lparr>PIN_INFO := \<not> PIN_INFO s\<rparr>)" by (simp add: cursor_inv_def)
  from dispatch_cursor_inv[OF this] show ?thesis
    by (simp add: handleMemoryRequests_def Let_def)
qed

lemma reachable_cursor_inv: "reachable s \<Longrightarrow> cursor_inv s"
proof (induction rule: reachable.induct)
  case (reset s)
  then show ?case by (simp add: initial_def cursor_inv_def sizeof_ramBuffer_def locked_ne)
next
  case (frame s e data)
  from frame.IH show ?case by (rule handle_cursor_inv)
qed


lemma handle_fst:
  "fst (handleMemoryRequests e s data) =
     (if lastError (snd (handleMemoryRequests e s data)) = IAP_SUCCESS then T_ACK_PDU else T_NACK_PDU)"
  by (simp add: handleMemoryRequests_def Let_def)

lemma handle_snd:
  "snd (handleMemoryRequests e s data) = dispatch e (s\<lparr>PIN_INFO := \<not> PIN_INFO s\<rparr>) data"
  by (simp add: handleMemoryRequests_def Let_def)

lemma dispatch_erase: "data 2 = UPD_ERASE_SECTOR \<Longrightarrow> dispatch e s data = erase_sector e s data"
  by (simp add: dispatch_def opcode_defs)
lemma dispatch_send: "data 2 = UPD_SEND_DATA \<Longrightarrow> dispatch e s data = send_data e s data"
  by (simp add: dispatch_def opcode_defs)
lemma dispatch_program: "data 2 = UPD_PROGRAM \<Longrightarrow> dispatch e s data = program e s data"
  by (simp add: dispatch_def opcode_defs)
lemma dispatch_boot: "data 2 = UPD_UPDATE_BOOT_DESC \<Longrightarrow> dispatch e s data = update_boot_desc e s data"
  by (simp add: dispatch_def opcode_defs)
lemma dispatch_unlock: "data 2 = UPD_UNLOCK_DEVICE \<Longrightarrow> dispatch e s data = unlock_device e s data"
  by (simp add: dispatch_def opcode_defs)
lemma dispatch_get: "data 2 = UPD_GET_LAST_ERROR \<Longrightarrow> dispatch e s data = get_last_error e s data"
  by (simp add: dispatch_def opcode_defs)

section \<open>The lock gates the mutating commands\<close>

lemma locked_erase:
  "deviceLocked s = DEVICE_LOCKED \<Longrightarrow>
   erase_sector e s data = s\<lparr>lastError := UPD_DEVICE_LOCKED, ramLocation := 0\<rparr>"
  by (simp add: erase_sector_def locked_ne)
lemma locked_send:
  "deviceLocked s = DEVICE_LOCKED \<Longrightarrow> send_data e s data = s\<lparr>lastError := UPD_DEVICE_LOCKED\<rparr>"
  by (simp add: send_data_def locked_ne)
lemma locked_program:
  "deviceLocked s = DEVICE_LOCKED \<Longrightarrow>
   program e s data = s\<lparr>lastError := UPD_DEVICE_LOCKED, ramLocation := 0\<rparr>"
  by (simp add: program_def locked_ne)
lemma locked_boot:
  "deviceLocked s = DEVICE_LOCKED \<Longrightarrow>
   update_boot_desc e s data = s\<lparr>lastError := UPD_DEVICE_LOCKED, ramLocation := 0\<rparr>"
  by (simp add: update_boot_desc_def locked_ne)

lemma reachable_locked_cursor:
  "reachable s \<Longrightarrow> deviceLocked s = DEVICE_LOCKED \<Longrightarrow> ramLocation s = 0"
  using reachable_cursor_inv[of s] by (simp add: cursor_inv_def locked_ne)

text \<open>
  Claim C1.  A frame with one of the opcodes \<open>ERASE_SECTOR\<close>, \<open>SEND_DATA\<close>,
  \<open>PROGRAM\<close>, \<open>UPDATE_BOOT_DESC\<close> that arrives while the device is locked is answered
  with NACK and leaves \<open>UPD_DEVICE_LOCKED\<close> in \<open>lastError\<close>; the staging buffer, its
  cursor and the flash are what they were.  Three of the four cases store 0 into the
  cursor even when locked; in a state that frames can reach from reset the cursor of a
  locked device is 0 already, so the store changes nothing.
\<close>

theorem locked_commands_refused:
  assumes "reachable s" and "deviceLocked s = DEVICE_LOCKED"
    and "data 2 \<in> {UPD_ERASE_SECTOR, UPD_SEND_DATA, UPD_PROGRAM, UPD_UPDATE_BOOT_DESC}"
  shows "fst (handleMemoryRequests e s data) = T_NACK_PDU
       \<and> lastError (snd (handleMemoryRequests e s data)) = UPD_DEVICE_LOCKED
       \<and> ramBuffer (snd (handleMemoryRequests e s data)) = ramBuffer s
       \<and> ramLocation (snd (handleMemoryRequests e s data)) = ramLocation s
       \<and> flash (snd (handleMemoryRequests e s data)) = flash s"
proof -
  let ?t = "s\<lparr>PIN_INFO := \<not> PIN_INFO s\<rparr>"
  have l: "deviceLocked ?t = DEVICE_LOCKED" using assms(2) by simp
  have c: "ramLocation s = 0" using assms(1,2) by (rule reachable_locked_cursor)
  have "dispatch e ?t data = ?t\<lparr>lastError := UPD_DEVICE_LOCKED, ramLocation := 0\<rparr>
      \<or> dispatch e ?t data = ?t\<lparr>lastError := UPD_DEVICE_LOCKED\<rparr>"
    using assms(3) l
    by (auto simp: dispatch_erase dispatch_send dispatch_program dispatch_boot
        locked_erase locked_send locked_program locked_boot)
  then show ?thesis
    unfolding handle_fst unfolding handle_snd
    using c by (auto simp: UPD_DEVICE_LOCKED_def IAP_SUCCESS_def)
qed

theorem locked_commands_refused_witness:
  "reachable reset_state \<and> deviceLocked reset_state = DEVICE_LOCKED
   \<and> fst (handleMemoryRequests (sample_env True 0) reset_state (frame_of [0, 0, 0, 2])) = T_NACK_PDU
   \<and> lastError (snd (handleMemoryRequests (sample_env True 0) reset_state (frame_of [0, 0, 0, 2]))) = 0x107
   \<and> ramLocation (snd (handleMemoryRequests (sample_env True 0) reset_state (frame_of [0, 0, 0, 2]))) = 0
   \<and> flash (snd (handleMemoryRequests (sample_env True 0) reset_state (frame_of [0, 0, 0, 2]))) = (\<lambda>a. 0xFF)"
proof -
  have r: "reachable reset_state"
    by (rule reachable.reset) (simp add: initial_def reset_state_def)
  have l: "deviceLocked reset_state = DEVICE_LOCKED" by (simp add: reset_state_def)
  have o: "frame_of [0, 0, 0, 2] 2 \<in> {UPD_ERASE_SECTOR, UPD_SEND_DATA, UPD_PROGRAM, UPD_UPDATE_BOOT_DESC}"
    by (simp add: frame_of_def opcode_defs)
  show ?thesis
    using locked_commands_refused
      [where s = reset_state and data = "frame_of [0, 0, 0, 2]" and e = "sample_env True 0", OF r l o] r l
    by (simp add: UPD_DEVICE_LOCKED_def) (simp add: reset_state_def)
qed

section \<open>Appending to the staging buffer\<close>

lemma memcpy_apply:
  "memcpy buf off bs i = (if off \<le> i \<and> i < off + length bs then bs ! (i - off) else buf i)"
proof (induction bs arbitrary: buf off)
  case Nil
  show ?case by auto
next
  case (Cons b bs)
  have "memcpy (buf(off := b)) (Suc off) bs i =
          (if Suc off \<le> i \<and> i < Suc off + length bs then bs ! (i - Suc off)
           else (buf(off := b)) i)"
    by (rule Cons.IH)
  then show ?case
    by (cases "i = off") (auto simp: nth_Cons' Suc_diff_le)
qed

lemma bytes_of_nth: "i < n \<Longrightarrow> bytes_of buf off n ! i = buf (off + i)"
  by (simp add: bytes_of_def)

lemma length_bytes_of: "length (bytes_of buf off n) = n"
  by (simp add: bytes_of_def)

lemma nibble_le: "unat ((x :: u8) AND 0x0f) \<le> 15"
proof -
  have "x AND 0x0f \<le> 0x0f" by (rule word_and_le1)
  then show ?thesis by (simp add: word_le_nat_alt)
qed

lemma unat_ucast_u8: "unat (ucast (x :: u8) :: u32) = unat x"
proof -
  have "unat x < 2 ^ 8" using unsigned_less [of x] by simp
  then have "unat x < 2 ^ 32" by simp
  then show ?thesis by (simp add: unsigned_ucast_eq take_bit_nat_eq_self)
qed

lemma cursor_add:
  fixes rl c :: u32
  assumes "rl < 4096" and "unat c \<le> 15"
  shows "unat (rl + c) = unat rl + unat c" and "(rl + c < 4096) = (unat rl + unat c < 4096)"
proof -
  have r: "unat rl < 4096" using assms(1) by (simp add: word_less_nat_alt)
  then have "unat rl + unat c < 2 ^ 32" using assms(2) by simp
  then show u: "unat (rl + c) = unat rl + unat c" by (simp add: unat_add_lem [THEN iffD1])
  show "(rl + c < 4096) = (unat rl + unat c < 4096)"
    by (simp add: word_less_nat_alt u)
qed

lemma send_data_full:
  assumes inv: "ramLocation s < sizeof_ramBuffer" and u: "deviceLocked s = DEVICE_UNLOCKED"
    and full: "4096 \<le> unat (ramLocation s) + unat (data 0 AND 0x0f)"
  shows "send_data e s data = s\<lparr>lastError := UPD_RAM_BUFFER_OVERFLOW\<rparr>"
proof -
  have r: "ramLocation s < 4096" using inv by (simp add: sizeof_ramBuffer_def)
  have c: "unat (ucast (data 0 AND 0x0f) :: u32) \<le> 15"
    by (simp add: unat_ucast_u8 nibble_le)
  have "\<not> ramLocation s + ucast (data 0 AND 0x0f) < 4096"
    using full by (simp add: cursor_add(2) [OF r c] unat_ucast_u8)
  then show ?thesis
    by (simp add: send_data_def Let_def u sizeof_ramBuffer_def)
qed

lemma send_data_room:
  assumes inv: "ramLocation s < sizeof_ramBuffer" and u: "deviceLocked s = DEVICE_UNLOCKED"
    and room: "\<not> 4096 \<le> unat (ramLocation s) + unat (data 0 AND 0x0f)"
  shows "send_data e s data =
           s\<lparr>ramBuffer := memcpy (ramBuffer s) (unat (ramLocation s))
                              (bytes_of data 3 (unat (data 0 AND 0x0f))),
             ramLocation := ramLocation s + ucast (data 0 AND 0x0f),
             lastError := IAP_SUCCESS\<rparr>"
    and "unat (ramLocation s + ucast (data 0 AND 0x0f)) =
           unat (ramLocation s) + unat (data 0 AND 0x0f)"
proof -
  have r: "ramLocation s < 4096" using inv by (simp add: sizeof_ramBuffer_def)
  have c: "unat (ucast (data 0 AND 0x0f) :: u32) \<le> 15"
    by (simp add: unat_ucast_u8 nibble_le)
  have "ramLocation s + ucast (data 0 AND 0x0f) < 4096"
    using room by (simp add: cursor_add(2) [OF r c] unat_ucast_u8)
  then show "send_data e s data =
           s\<lparr>ramBuffer := memcpy (ramBuffer s) (unat (ramLocation s))
                              (bytes_of data 3 (unat (data 0 AND 0x0f))),
             ramLocation := ramLocation s + ucast (data 0 AND 0x0f),
             lastError := IAP_SUCCESS\<rparr>"
    by (simp add: send_data_def Let_def u sizeof_ramBuffer_def unat_ucast_u8)
  show "unat (ramLocation s + ucast (data 0 AND 0x0f)) =
           unat (ramLocation s) + unat (data 0 AND 0x0f)"
    by (simp add: cursor_add(1) [OF r c] unat_ucast_u8)
qed

lemma staged_bytes:
  "memcpy buf off (bytes_of data 3 n) i =
     (if off \<le> i \<and> i < off + n then data (3 + (i - off)) else buf i)"
  by (auto simp: memcpy_apply length_bytes_of bytes_of_nth)

text \<open>
  Claim C7.  A \<open>SEND_DATA\<close> frame that arrives while the device is unlocked carries
  \<open>len = data[0] & 0x0F\<close> bytes.  If cursor + len reaches 4096 the frame is refused with
  \<open>UPD_RAM_BUFFER_OVERFLOW\<close> and neither the cursor nor the buffer changes.  Otherwise
  the bytes \<open>data[3..3+len)\<close> land at the cursor, every other byte of the buffer is
  kept, the cursor advances by len and \<open>lastError\<close> is the success code.  Either way
  the cursor stays at or below 4095, so the buffer never takes its 4096th byte.
\<close>

theorem send_data_appends:
  assumes "reachable s" and "deviceLocked s = DEVICE_UNLOCKED" and "data 2 = UPD_SEND_DATA"
  shows "(if 4096 \<le> unat (ramLocation s) + unat (data 0 AND 0x0f)
          then fst (handleMemoryRequests e s data) = T_NACK_PDU
             \<and> lastError (snd (handleMemoryRequests e s data)) = UPD_RAM_BUFFER_OVERFLOW
             \<and> ramLocation (snd (handleMemoryRequests e s data)) = ramLocation s
             \<and> ramBuffer (snd (handleMemoryRequests e s data)) = ramBuffer s
          else fst (handleMemoryRequests e s data) = T_ACK_PDU
             \<and> lastError (snd (handleMemoryRequests e s data)) = IAP_SUCCESS
             \<and> unat (ramLocation (snd (handleMemoryRequests e s data))) =
                 unat (ramLocation s) + unat (data 0 AND 0x0f)
             \<and> (\<forall>i. ramBuffer (snd (handleMemoryRequests e s data)) i =
                   (if unat (ramLocation s) \<le> i
                       \<and> i < unat (ramLocation s) + unat (data 0 AND 0x0f)
                    then data (3 + (i - unat (ramLocation s)))
                    else ramBuffer s i)))
       \<and> unat (ramLocation (snd (handleMemoryRequests e s data))) \<le> 4095"
proof -
  let ?t = "s\<lparr>PIN_INFO := \<not> PIN_INFO s\<rparr>"
  have inv: "ramLocation ?t < sizeof_ramBuffer"
    using reachable_cursor_inv [OF assms(1)] by (simp add: cursor_inv_def)
  have u: "deviceLocked ?t = DEVICE_UNLOCKED" using assms(2) by simp
  have d: "snd (handleMemoryRequests e s data) = send_data e ?t data"
    using assms(3) by (simp add: handle_snd dispatch_send)
  have "reachable (snd (handleMemoryRequests e s data))"
    using assms(1) by (rule reachable.frame)
  then have "ramLocation (snd (handleMemoryRequests e s data)) < 4096"
    using reachable_cursor_inv by (simp add: cursor_inv_def sizeof_ramBuffer_def)
  then have bound: "unat (ramLocation (snd (handleMemoryRequests e s data))) \<le> 4095"
    by (simp add: word_less_nat_alt)
  show ?thesis
  proof (cases "4096 \<le> unat (ramLocation s) + unat (data 0 AND 0x0f)")
    case True
    then have "4096 \<le> unat (ramLocation ?t) + unat (data 0 AND 0x0f)" by simp
    from send_data_full [where data = data and e = e, OF inv u this] True bound show ?thesis
      unfolding handle_fst unfolding d
      by (simp add: UPD_RAM_BUFFER_OVERFLOW_def IAP_SUCCESS_def)
  next
    case False
    then have f: "\<not> 4096 \<le> unat (ramLocation ?t) + unat (data 0 AND 0x0f)" by simp
    from send_data_room(1) [where data = data and e = e, OF inv u f]
      send_data_room(2) [where data = data, OF inv u f] False bound show ?thesis
      unfolding handle_fst unfolding d
      by (simp add: staged_bytes)
  qed
qed

lemmas sample_run_defs =
  handleMemoryRequests_def dispatch_def opcode_defs frame_of_def sample_env_def
  reset_state_def IAP_SUCCESS_def Let_def

lemma reachable_reset_state: "reachable reset_state"
  by (rule reachable.reset) (simp add: initial_def reset_state_def)

lemma reachable_unlocked_state: "reachable unlocked_state"
  unfolding unlocked_state_def by (rule reachable.frame [OF reachable_reset_state])

lemma unlocked_state_fields:
  "deviceLocked unlocked_state = DEVICE_UNLOCKED" "ramLocation unlocked_state = 0"
  "ramBuffer unlocked_state = (\<lambda>i. 0)" "lastError unlocked_state = 0"
  "flash unlocked_state = (\<lambda>a. 0xFF)"
  by (simp_all add: unlocked_state_def sample_run_defs unlock_device_def)

theorem send_data_appends_witness:
  "reachable unlocked_state \<and> deviceLocked unlocked_state = DEVICE_UNLOCKED
   \<and> frame_of [3, 0, 1, 0xAA, 0xBB, 0xCC] 2 = UPD_SEND_DATA
   \<and> fst (handleMemoryRequests (sample_env True 0) unlocked_state
            (frame_of [3, 0, 1, 0xAA, 0xBB, 0xCC])) = T_ACK_PDU
   \<and> unat (ramLocation (snd (handleMemoryRequests (sample_env True 0) unlocked_state
            (frame_of [3, 0, 1, 0xAA, 0xBB, 0xCC])))) = 3
   \<and> ramBuffer (snd (handleMemoryRequests (sample_env True 0) unlocked_state
            (frame_of [3, 0, 1, 0xAA, 0xBB, 0xCC]))) 2 = 0xCC
   \<and> ramBuffer (snd (handleMemoryRequests (sample_env True 0) unlocked_state
            (frame_of [3, 0, 1, 0xAA, 0xBB, 0xCC]))) 3 = 0"
proof -
  have o: "frame_of [3, 0, 1, 0xAA, 0xBB, 0xCC] 2 = UPD_SEND_DATA"
    by (simp add: frame_of_def opcode_defs)
  have n: "unat (frame_of [3, 0, 1, 0xAA, 0xBB, 0xCC] 0 AND 0x0f) = 3"
    by (simp add: frame_of_def)
  have b: "frame_of [3, 0, 1, 0xAA, 0xBB, 0xCC] 5 = 0xCC"
    by (simp add: frame_of_def)
  show ?thesis
    using send_data_appends
      [where s = unlocked_state and data = "frame_of [3, 0, 1, 0xAA, 0xBB, 0xCC]"
         and e = "sample_env True 0",
       OF reachable_unlocked_state unlocked_state_fields(1) o]
      reachable_unlocked_state o
    by (simp add: unlocked_state_fields n b)
qed

section \<open>Unlocking by identifier\<close>

lemma fold_latch:
  "fold (\<lambda>i le. if P i then v else le) xs le = (if \<exists>i\<in>set xs. P i then v else le)"
  by (induction xs arbitrary: le) auto

lemma uid_loop_result:
  "uid_loop data uid le = (if \<exists>i<12. data (i + 3) \<noteq> uid i then UPD_UID_MISSMATCH else le)"
  unfolding uid_loop_def fold_latch by auto

lemma unlock_by_uid:
  assumes "progPinStatus e" and "iapReadUID e = (IAP_SUCCESS, uid)"
  shows "unlock_device e s data =
           (if (\<exists>i<12. data (i + 3) \<noteq> uid i) \<or> lastError s = UPD_UID_MISSMATCH
            then s\<lparr>lastError := UPD_UID_MISSMATCH\<rparr>
            else s\<lparr>deviceLocked := DEVICE_UNLOCKED, lastError := IAP_SUCCESS\<rparr>)"
  using assms by (auto simp: unlock_device_def uid_loop_result)

lemma twelve: "[0..<12] = [0, 1, 2, 3, 4, 5, 6, 7, 8, 9, 10, 11]"
  by (simp add: upt_rec)

lemma mismatch_state_fields:
  "deviceLocked mismatch_state = DEVICE_LOCKED" "lastError mismatch_state = UPD_UID_MISSMATCH"
  "ramLocation mismatch_state = 0"
  by (simp_all add: mismatch_state_def wrong_uid_frame_def sample_run_defs unlock_device_def
      uid_loop_def twelve sample_uid_def UPD_UID_MISSMATCH_def)

text \<open>
  Claim C2 says that an unlock frame whose twelve bytes all match the chip identifier
  unlocks the device.  The code uses \<open>lastError\<close> as the flag of its comparison loop
  and never clears it before the loop: after one failed attempt the register holds
  \<open>UPD_UID_MISSMATCH\<close>, and the next frame, carrying the right identifier, is refused.
  The run below is that second frame on the sample device: the identifier read succeeds,
  the twelve bytes agree, the answer is NACK and the device stays locked.
\<close>

theorem unlock_refused_after_mismatch:
  "iapReadUID (sample_env True 0) = (IAP_SUCCESS, sample_uid)
   \<and> bytes_of right_uid_frame 3 12 = bytes_of sample_uid 0 12
   \<and> deviceLocked mismatch_state = DEVICE_LOCKED
   \<and> lastError mismatch_state = UPD_UID_MISSMATCH
   \<and> fst (handleMemoryRequests (sample_env True 0) mismatch_state right_uid_frame) = T_NACK_PDU
   \<and> deviceLocked (snd (handleMemoryRequests (sample_env True 0) mismatch_state right_uid_frame))
       = DEVICE_LOCKED
   \<and> lastError (snd (handleMemoryRequests (sample_env True 0) mismatch_state right_uid_frame))
       = UPD_UID_MISSMATCH"
proof -
  have a: "iapReadUID (sample_env True 0) = (IAP_SUCCESS, sample_uid)"
    by (simp add: sample_env_def IAP_SUCCESS_def)
  have b: "bytes_of right_uid_frame 3 12 = bytes_of sample_uid 0 12"
    by (simp add: bytes_of_def twelve right_uid_frame_def frame_of_def sample_uid_def)
  have c: "uid_loop right_uid_frame sample_uid UPD_UID_MISSMATCH = UPD_UID_MISSMATCH"
    by (simp add: uid_loop_def twelve)
  have o: "right_uid_frame 2 = UPD_UNLOCK_DEVICE"
    by (simp add: right_uid_frame_def frame_of_def opcode_defs)
  have p: "progPinStatus (sample_env True 0)" by (simp add: sample_env_def)
  have d: "unlock_device (sample_env True 0) (mismatch_state\<lparr>PIN_INFO := \<not> PIN_INFO mismatch_state\<rparr>)
             right_uid_frame = mismatch_state\<lparr>PIN_INFO := \<not> PIN_INFO mismatch_state\<rparr>"
    by (simp add: unlock_device_def p a mismatch_state_fields c)
  show ?thesis
    unfolding handle_fst unfolding handle_snd dispatch_unlock [where data = right_uid_frame, OF o] d
    by (simp add: a b mismatch_state_fields) (simp add: UPD_UID_MISSMATCH_def IAP_SUCCESS_def)
qed

section \<open>The answer of the dispatcher\<close>

lemma dispatch_unknown:
  assumes "data 2 \<notin> {UPD_UNLOCK_DEVICE, UPD_REQUEST_UID, UPD_APP_VERSION_REQUEST, UPD_ERASE_SECTOR,
             UPD_SEND_DATA, UPD_PROGRAM, UPD_UPDATE_BOOT_DESC, UPD_REQ_DATA, UPD_GET_LAST_ERROR}"
  shows "dispatch e s data = s\<lparr>lastError := UDP_UNKONW_COMMAND\<rparr>"
  using assms by (simp add: dispatch_def)

text \<open>
  What holds of the answer for every frame, state and environment: it is ACK exactly
  when \<open>lastError\<close> holds the success code afterwards and NACK otherwise, and an
  opcode that has no case in the \<open>switch\<close> leaves \<open>UDP_UNKONW_COMMAND\<close>, which is
  0x100, in \<open>lastError\<close>.
\<close>

lemma ack_iff_success:
  "(fst (handleMemoryRequests e s data) = T_ACK_PDU
      \<longleftrightarrow> lastError (snd (handleMemoryRequests e s data)) = IAP_SUCCESS)
   \<and> (fst (handleMemoryRequests e s data) = T_NACK_PDU
      \<longleftrightarrow> lastError (snd (handleMemoryRequests e s data)) \<noteq> IAP_SUCCESS)
   \<and> (data 2 \<notin> {UPD_UNLOCK_DEVICE, UPD_REQUEST_UID, UPD_APP_VERSION_REQUEST, UPD_ERASE_SECTOR,
             UPD_SEND_DATA, UPD_PROGRAM, UPD_UPDATE_BOOT_DESC, UPD_REQ_DATA, UPD_GET_LAST_ERROR}
      \<longrightarrow> lastError (snd (handleMemoryRequests e s data)) = UDP_UNKONW_COMMAND
        \<and> UDP_UNKONW_COMMAND = 0x100
        \<and> fst (handleMemoryRequests e s data) = T_NACK_PDU)"
proof -
  have "data 2 \<notin> {UPD_UNLOCK_DEVICE, UPD_REQUEST_UID, UPD_APP_VERSION_REQUEST, UPD_ERASE_SECTOR,
             UPD_SEND_DATA, UPD_PROGRAM, UPD_UPDATE_BOOT_DESC, UPD_REQ_DATA, UPD_GET_LAST_ERROR}
      \<Longrightarrow> lastError (snd (handleMemoryRequests e s data)) = UDP_UNKONW_COMMAND"
    unfolding handle_snd
    using dispatch_unknown [where data = data and e = e and s = "s\<lparr>PIN_INFO := \<not> PIN_INFO s\<rparr>"]
    by simp
  then show ?thesis
    unfolding handle_fst by (auto simp: UDP_UNKONW_COMMAND_def IAP_SUCCESS_def)
qed

lemma ack_iff_success_witness:
  "frame_of [0, 0, 100] 2 \<notin> {UPD_UNLOCK_DEVICE, UPD_REQUEST_UID, UPD_APP_VERSION_REQUEST,
       UPD_ERASE_SECTOR, UPD_SEND_DATA, UPD_PROGRAM, UPD_UPDATE_BOOT_DESC, UPD_REQ_DATA,
       UPD_GET_LAST_ERROR}
   \<and> lastError (snd (handleMemoryRequests (sample_env True 0) unlocked_state (frame_of [0, 0, 100])))
       = 0x100
   \<and> fst (handleMemoryRequests (sample_env True 0) unlocked_state (frame_of [0, 0, 100]))
       = T_NACK_PDU"
proof -
  have o: "frame_of [0, 0, 100] 2 \<notin> {UPD_UNLOCK_DEVICE, UPD_REQUEST_UID, UPD_APP_VERSION_REQUEST,
       UPD_ERASE_SECTOR, UPD_SEND_DATA, UPD_PROGRAM, UPD_UPDATE_BOOT_DESC, UPD_REQ_DATA,
       UPD_GET_LAST_ERROR}"
    by (simp add: frame_of_def opcode_defs)
  show ?thesis
    using ack_iff_success [where data = "frame_of [0, 0, 100]" and e = "sample_env True 0"
        and s = unlocked_state] o
    by (simp add: UDP_UNKONW_COMMAND_def)
qed

lemma dispatch_written:
  assumes "data 2 \<noteq> UPD_UNLOCK_DEVICE \<or> \<not> progPinStatus e"
  shows "lastError (dispatch e (s\<lparr>lastError := x\<rparr>) data) = lastError (dispatch e s data)"
  using assms
  by (auto simp: dispatch_def unlock_device_def request_uid_def app_version_request_def
      erase_sector_def send_data_def program_def update_boot_desc_def req_data_def
      get_last_error_def Let_def split: prod.splits)

lemma lastError_written:
  assumes "data 2 \<noteq> UPD_UNLOCK_DEVICE \<or> \<not> progPinStatus e"
  shows "lastError (snd (handleMemoryRequests e (s\<lparr>lastError := x\<rparr>) data))
       = lastError (snd (handleMemoryRequests e s data))"
proof -
  have "(s\<lparr>lastError := x\<rparr>)\<lparr>PIN_INFO := \<not> PIN_INFO (s\<lparr>lastError := x\<rparr>)\<rparr>
      = (s\<lparr>PIN_INFO := \<not> PIN_INFO s\<rparr>)\<lparr>lastError := x\<rparr>"
    by simp
  then show ?thesis
    unfolding handle_snd
    using dispatch_written
      [where data = data and e = e and s = "s\<lparr>PIN_INFO := \<not> PIN_INFO s\<rparr>" and x = x, OF assms]
    by (simp only:)
qed

text \<open>
  Claim C8 says that every frame ends with a store to \<open>lastError\<close> and that the stored
  value decides the answer.  Every path of the dispatcher but one does store: the
  value of \<open>lastError\<close> after the frame does not depend on the value before it, unless
  the frame is an unlock by identifier.  That path uses \<open>lastError\<close> as the flag of its
  comparison loop and stores nothing when no byte differs and the register still holds
  \<open>UPD_UID_MISSMATCH\<close>.  The run below is the frame with the right identifier on the
  sample device after a failed attempt, and the same frame after the register has been
  cleared: the first leaves the state as it was but for the info LED and is answered
  with NACK, the second is answered with ACK.
\<close>

theorem stale_error_not_written:
  "right_uid_frame 2 = UPD_UNLOCK_DEVICE \<and> progPinStatus (sample_env True 0)
   \<and> lastError mismatch_state = UPD_UID_MISSMATCH
   \<and> snd (handleMemoryRequests (sample_env True 0) mismatch_state right_uid_frame)
       = mismatch_state\<lparr>PIN_INFO := \<not> PIN_INFO mismatch_state\<rparr>
   \<and> fst (handleMemoryRequests (sample_env True 0) mismatch_state right_uid_frame) = T_NACK_PDU
   \<and> lastError (snd (handleMemoryRequests (sample_env True 0)
         (mismatch_state\<lparr>lastError := IAP_SUCCESS\<rparr>) right_uid_frame)) = IAP_SUCCESS
   \<and> fst (handleMemoryRequests (sample_env True 0)
         (mismatch_state\<lparr>lastError := IAP_SUCCESS\<rparr>) right_uid_frame) = T_ACK_PDU"
proof -
  have a: "iapReadUID (sample_env True 0) = (IAP_SUCCESS, sample_uid)"
    by (simp add: sample_env_def IAP_SUCCESS_def)
  have p: "progPinStatus (sample_env True 0)" by (simp add: sample_env_def)
  have o: "right_uid_frame 2 = UPD_UNLOCK_DEVICE"
    by (simp add: right_uid_frame_def frame_of_def opcode_defs)
  have m: "\<not> (\<exists>i<12. right_uid_frame (i + 3) \<noteq> sample_uid i)"
  proof -
    have "\<forall>i\<in>set [0..<12]. right_uid_frame (i + 3) = sample_uid i"
      unfolding twelve by (simp add: right_uid_frame_def frame_of_def sample_uid_def)
    then show ?thesis by simp
  qed
  have d: "dispatch (sample_env True 0) s right_uid_frame
             = unlock_device (sample_env True 0) s right_uid_frame" for s
    using o by (simp add: dispatch_unlock)
  have ne: "IAP_SUCCESS \<noteq> UPD_UID_MISSMATCH"
    by (simp add: IAP_SUCCESS_def UPD_UID_MISSMATCH_def)
  show ?thesis
    unfolding handle_fst unfolding handle_snd d unlock_by_uid [OF p a]
    using m ne by (simp add: o p mismatch_state_fields)
qed

section \<open>Reading the last error\<close>

lemma get_last_error_fields:
  "lastError (get_last_error e s data) = IAP_SUCCESS"
  "sendTel (get_last_error e s data)"
  "sendTelegram (get_last_error e s data) 5 = 0x67"
  "sendTelegram (get_last_error e s data) 6 = 0x42"
  "sendTelegram (get_last_error e s data) 7 = 0x44"
  "sendTelegram (get_last_error e s data) 8 = 0"
  "sendTelegram (get_last_error e s data) 9 = UPD_SEND_LAST_ERROR"
  "sendTelegram (get_last_error e s data) 10 = ucast (lastError s)"
  "sendTelegram (get_last_error e s data) 11 = ucast (drop_bit 8 (lastError s))"
  "sendTelegram (get_last_error e s data) 12 = ucast (drop_bit 16 (lastError s))"
  "sendTelegram (get_last_error e s data) 13 = ucast (drop_bit 24 (lastError s))"
  "deviceLocked (get_last_error e s data) = deviceLocked s"
  "ramLocation (get_last_error e s data) = ramLocation s"
  "ramBuffer (get_last_error e s data) = ramBuffer s"
  "flash (get_last_error e s data) = flash s"
  by (simp_all add: get_last_error_def prepareReturnTelegram_def u32_bytes_def
      memcpy_apply)

lemma byte_of_u32:
  fixes w :: u32
  shows "unat (ucast w :: u8) = unat w mod 256"
    and "unat (ucast (drop_bit 8 w) :: u8) = unat w div 256 mod 256"
    and "unat (ucast (drop_bit 16 w) :: u8) = unat w div 65536 mod 256"
    and "unat (ucast (drop_bit 24 w) :: u8) = unat w div 16777216 mod 256"
  by (simp_all add: unsigned_ucast_eq unsigned_drop_bit_eq take_bit_eq_mod drop_bit_eq_div
      unat_div)

lemma handle_get_last_error:
  assumes "data 2 = UPD_GET_LAST_ERROR"
  shows "handleMemoryRequests e s data =
           (T_ACK_PDU, get_last_error e (s\<lparr>PIN_INFO := \<not> PIN_INFO s\<rparr>) data)"
  using assms
  by (simp add: handleMemoryRequests_def Let_def dispatch_get get_last_error_fields(1))

text \<open>
  Claim C9.  \<open>GET_LAST_ERROR\<close> is served in every state, locked or not: the reply
  telegram is requested, its header is 0x63 + 4, 0x42, 0x40 | 4, 0, opcode 21, and its
  bytes 10 to 13 are \<open>lastError\<close> least significant byte first.  Afterwards
  \<open>lastError\<close> is the success code, so the frame is ACKed, the lock is as before, and
  a \<open>GET_LAST_ERROR\<close> that follows immediately is ACKed and reports four zero bytes.
\<close>

theorem get_last_error_reads_and_clears:
  assumes "data 2 = UPD_GET_LAST_ERROR"
  shows "fst (handleMemoryRequests e s data) = T_ACK_PDU
       \<and> sendTel (snd (handleMemoryRequests e s data))
       \<and> sendTelegram (snd (handleMemoryRequests e s data)) 5 = 0x63 + 4
       \<and> sendTelegram (snd (handleMemoryRequests e s data)) 6 = 0x42
       \<and> sendTelegram (snd (handleMemoryRequests e s data)) 7 = 0x44
       \<and> sendTelegram (snd (handleMemoryRequests e s data)) 8 = 0
       \<and> sendTelegram (snd (handleMemoryRequests e s data)) 9 = 21
       \<and> unat (sendTelegram (snd (handleMemoryRequests e s data)) 10) = unat (lastError s) mod 256
       \<and> unat (sendTelegram (snd (handleMemoryRequests e s data)) 11)
           = unat (lastError s) div 256 mod 256
       \<and> unat (sendTelegram (snd (handleMemoryRequests e s data)) 12)
           = unat (lastError s) div 65536 mod 256
       \<and> unat (sendTelegram (snd (handleMemoryRequests e s data)) 13)
           = unat (lastError s) div 16777216 mod 256
       \<and> lastError (snd (handleMemoryRequests e s data)) = IAP_SUCCESS
       \<and> deviceLocked (snd (handleMemoryRequests e s data)) = deviceLocked s
       \<and> (\<forall>e' data'. data' 2 = UPD_GET_LAST_ERROR \<longrightarrow>
            fst (handleMemoryRequests e' (snd (handleMemoryRequests e s data)) data') = T_ACK_PDU
          \<and> bytes_of (sendTelegram
                (snd (handleMemoryRequests e' (snd (handleMemoryRequests e s data)) data'))) 10 4
              = [0, 0, 0, 0])"
proof -
  have four: "[0..<4] = [0, 1, 2, 3]" by (simp add: upt_rec)
  show ?thesis
    by (simp add: handle_get_last_error [where data = data, OF assms] handle_get_last_error
        get_last_error_fields byte_of_u32 UPD_SEND_LAST_ERROR_def bytes_of_def four
        IAP_SUCCESS_def unsigned_drop_bit_eq drop_bit_eq_div unat_div)
qed

theorem get_last_error_reads_and_clears_witness:
  "frame_of [0, 0, 20] 2 = UPD_GET_LAST_ERROR
   \<and> lastError mismatch_state = 0x108
   \<and> fst (handleMemoryRequests (sample_env True 0) mismatch_state (frame_of [0, 0, 20])) = T_ACK_PDU
   \<and> unat (sendTelegram (snd (handleMemoryRequests (sample_env True 0) mismatch_state
        (frame_of [0, 0, 20]))) 10) = 0x08
   \<and> unat (sendTelegram (snd (handleMemoryRequests (sample_env True 0) mismatch_state
        (frame_of [0, 0, 20]))) 11) = 0x01
   \<and> unat (sendTelegram (snd (handleMemoryRequests (sample_env True 0) mismatch_state
        (frame_of [0, 0, 20]))) 12) = 0
   \<and> unat (sendTelegram (snd (handleMemoryRequests (sample_env True 0) mismatch_state
        (frame_of [0, 0, 20]))) 13) = 0
   \<and> lastError (snd (handleMemoryRequests (sample_env True 0) mismatch_state
        (frame_of [0, 0, 20]))) = 0
   \<and> bytes_of (sendTelegram (snd (handleMemoryRequests (sample_env True 0)
        (snd (handleMemoryRequests (sample_env True 0) mismatch_state (frame_of [0, 0, 20])))
        (frame_of [0, 0, 20])))) 10 4 = [0, 0, 0, 0]"
proof -
  have o: "frame_of [0, 0, 20] 2 = UPD_GET_LAST_ERROR"
    by (simp add: frame_of_def opcode_defs)
  have l: "lastError mismatch_state = 0x108"
    by (simp add: mismatch_state_fields UPD_UID_MISSMATCH_def)
  show ?thesis
    using get_last_error_reads_and_clears
      [where data = "frame_of [0, 0, 20]" and e = "sample_env True 0" and s = mismatch_state,
       OF o] o
    by (simp add: l IAP_SUCCESS_def)
qed

section \<open>A failed identifier read\<close>

lemma unlock_read_failed:
  assumes "progPinStatus e" and "fst (iapReadUID e) \<noteq> IAP_SUCCESS"
  shows "unlock_device e s data =
           (if lastError s \<noteq> UPD_UID_MISSMATCH
            then s\<lparr>deviceLocked := DEVICE_UNLOCKED, lastError := IAP_SUCCESS\<rparr> else s)"
  using assms by (auto simp: unlock_device_def Let_def split: prod.splits)

text \<open>
  Claim C10.  With the button not held, an unlock frame for which \<open>iapReadUID\<close>
  reports a failure is not compared with anything: the state after the frame does not
  depend on the payload or on the identifier buffer.  Unless \<open>lastError\<close> already held
  \<open>UPD_UID_MISSMATCH\<close>, the device is then unlocked, \<open>lastError\<close> is the success code
  and the frame is ACKed.
\<close>

theorem uid_read_failure_unlocks:
  assumes "data 2 = UPD_UNLOCK_DEVICE" and "progPinStatus e"
    and "fst (iapReadUID e) \<noteq> IAP_SUCCESS"
  shows "snd (handleMemoryRequests e s data) =
           (if lastError s \<noteq> UPD_UID_MISSMATCH
            then s\<lparr>PIN_INFO := \<not> PIN_INFO s, deviceLocked := DEVICE_UNLOCKED,
                   lastError := IAP_SUCCESS\<rparr>
            else s\<lparr>PIN_INFO := \<not> PIN_INFO s\<rparr>)
       \<and> (lastError s \<noteq> UPD_UID_MISSMATCH \<longrightarrow>
            deviceLocked (snd (handleMemoryRequests e s data)) = DEVICE_UNLOCKED
          \<and> lastError (snd (handleMemoryRequests e s data)) = IAP_SUCCESS
          \<and> fst (handleMemoryRequests e s data) = T_ACK_PDU)"
  unfolding handle_fst unfolding handle_snd
  using assms(1)
  by (simp add: dispatch_unlock unlock_read_failed [OF assms(2,3)])

theorem uid_read_failure_unlocks_witness:
  "frame_of [0, 0, 30] 2 = UPD_UNLOCK_DEVICE \<and> progPinStatus (sample_env True 1)
   \<and> fst (iapReadUID (sample_env True 1)) \<noteq> IAP_SUCCESS
   \<and> lastError reset_state \<noteq> UPD_UID_MISSMATCH
   \<and> deviceLocked reset_state = DEVICE_LOCKED
   \<and> frame_of [0, 0, 30] 3 \<noteq> sample_uid 0
   \<and> deviceLocked (snd (handleMemoryRequests (sample_env True 1) reset_state (frame_of [0, 0, 30])))
       = DEVICE_UNLOCKED
   \<and> lastError (snd (handleMemoryRequests (sample_env True 1) reset_state (frame_of [0, 0, 30])))
       = IAP_SUCCESS
   \<and> fst (handleMemoryRequests (sample_env True 1) reset_state (frame_of [0, 0, 30])) = T_ACK_PDU"
proof -
  have o: "frame_of [0, 0, 30] 2 = UPD_UNLOCK_DEVICE" by (simp add: frame_of_def opcode_defs)
  have p: "progPinStatus (sample_env True 1)" by (simp add: sample_env_def)
  have f: "fst (iapReadUID (sample_env True 1)) \<noteq> IAP_SUCCESS"
    by (simp add: sample_env_def IAP_SUCCESS_def)
  have l: "lastError reset_state \<noteq> UPD_UID_MISSMATCH"
    by (simp add: reset_state_def UPD_UID_MISSMATCH_def)
  have d: "deviceLocked reset_state = DEVICE_LOCKED" by (simp add: reset_state_def)
  have m: "frame_of [0, 0, 30] 3 \<noteq> sample_uid 0" by (simp add: frame_of_def sample_uid_def)
  show ?thesis
    using uid_read_failure_unlocks
      [where data = "frame_of [0, 0, 30]" and e = "sample_env True 1" and s = reset_state,
       OF o p f] o p f l d m
    by simp
qed

section \<open>Which sectors may be erased\<close>

lemma ceiling_4096: "\<lceil>real x / 4096\<rceil> = int ((x + 4095) div 4096)"
proof -
  have "\<lceil>real x / 4096\<rceil> = \<lceil>of_int (int x) / of_int 4096 :: real\<rceil>" by simp
  also have "\<dots> = - (- int x div 4096)" by (rule ceiling_divide_eq_div)
  also have "\<dots> = int ((x + 4095) div 4096)" by (simp add: zdiv_int)
  finally show ?thesis .
qed

lemma unat_ADDRESS2SECTOR:
  assumes "unat a + 4095 < 2 ^ 32"
  shows "unat (ADDRESS2SECTOR a) = (unat a + 4095) div 4096"
proof -
  have "unat (a + 4095) = unat a + unat (4095 :: u32)"
    using assms by (simp add: unat_add_lem [THEN iffD1])
  then show ?thesis by (simp add: ADDRESS2SECTOR_def unat_div)
qed

text \<open>
  Claim C5.  \<open>sectorAllowedToErease\<close> refuses sector 0 and every sector \<open>s\<close> with
  ceil (start / 4096) \<open>\<le>\<close> s \<open>\<le>\<close> ceil (end / 4096), and allows every other sector, where
  start and end are the values of \<open>__vectors_start__\<close> and \<open>_etext\<close>.  The macro
  \<open>ADDRESS2SECTOR\<close> adds 4095 in 32 bits; it is the ceiling as long as that sum does
  not wrap, which is the assumption on the two constants.
\<close>

theorem sector_policy:
  assumes "unat (vectors_start e) + 4095 < 2 ^ 32" and "unat (etext e) + 4095 < 2 ^ 32"
  shows "sectorAllowedToErease e s \<longleftrightarrow> \<not> (s = 0 \<or> updater_owned e (unat s))"
proof -
  have "updater_owned e (unat s) \<longleftrightarrow>
          (unat (vectors_start e) + 4095) div 4096 \<le> unat s
        \<and> unat s \<le> (unat (etext e) + 4095) div 4096"
    unfolding updater_owned_def ceiling_4096 of_nat_le_iff ..
  then show ?thesis
    by (simp add: sectorAllowedToErease_def word_le_nat_alt
        unat_ADDRESS2SECTOR [OF assms(1)] unat_ADDRESS2SECTOR [OF assms(2)])
qed

theorem sector_policy_witness:
  "unat (vectors_start (sample_env True 0)) + 4095 < 2 ^ 32
   \<and> unat (etext (sample_env True 0)) + 4095 < 2 ^ 32
   \<and> updater_owned (sample_env True 0) 1 \<and> updater_owned (sample_env True 0) 2
   \<and> updater_owned (sample_env True 0) 4 \<and> \<not> updater_owned (sample_env True 0) 5
   \<and> \<not> sectorAllowedToErease (sample_env True 0) 0
   \<and> \<not> sectorAllowedToErease (sample_env True 0) 2
   \<and> sectorAllowedToErease (sample_env True 0) 5"
proof -
  have a: "unat (vectors_start (sample_env True 0)) + 4095 < 2 ^ 32"
    and b: "unat (etext (sample_env True 0)) + 4095 < 2 ^ 32"
    by (simp_all add: sample_env_def)
  have o: "updater_owned (sample_env True 0) 1" "updater_owned (sample_env True 0) 2"
    "updater_owned (sample_env True 0) 4" "\<not> updater_owned (sample_env True 0) 5"
    "\<not> updater_owned (sample_env True 0) 0"
    by (simp_all add: updater_owned_def sample_env_def)
  show ?thesis
    using sector_policy [OF a b, of 0] sector_policy [OF a b, of 2] sector_policy [OF a b, of 5]
      a b o
    by simp
qed

section \<open>Which ranges may be programmed\<close>

text \<open>
  The claim C4 as it is written fails where \<open>start + length\<close> wraps around in 32 bits.
  On the sample device (updater from 0x1000 to 0x3FFF) the 0xFFFFFFFF bytes from 0x1000
  are not contained in the updater, yet \<open>end\<close> is computed as 0x0FFF, both comparisons
  hold and the range is refused.
\<close>

theorem address_check_wraps_counterexample:
  "\<not> (addressAllowedToProgram (sample_env True 0) 0x1000 0xFFFFFFFF = False
        \<longleftrightarrow> wholly_in_updater (sample_env True 0) 0x1000 0xFFFFFFFF)"
  by (simp add: addressAllowedToProgram_def wholly_in_updater_def sample_env_def)

lemma unat_plus_mod: "unat ((a :: u32) + n) = (unat a + unat n) mod 2 ^ 32"
  by (simp add: unat_word_ariths)

text \<open>
  Claim C4, amended.  \<open>addressAllowedToProgram a n\<close> returns false exactly when \<open>a\<close>
  is at or above the start of the updater and \<open>(a + n) mod 2^32\<close> is at or below its
  end.  For a range that does not wrap this is containment as the claim words it.  So a
  range wholly inside the updater is always refused, and a range that begins below the
  updater, or that ends beyond it without wrapping, is allowed.
\<close>

theorem address_check_modular:
  "(addressAllowedToProgram e a n = False
      \<longleftrightarrow> unat (vectors_start e) \<le> unat a \<and> (unat a + unat n) mod 2 ^ 32 \<le> unat (etext e))
   \<and> (unat a + unat n < 2 ^ 32 \<longrightarrow>
        (addressAllowedToProgram e a n = False \<longleftrightarrow> wholly_in_updater e a n))
   \<and> (wholly_in_updater e a n \<longrightarrow> addressAllowedToProgram e a n = False)
   \<and> (unat a < unat (vectors_start e) \<longrightarrow> addressAllowedToProgram e a n)
   \<and> (unat a + unat n < 2 ^ 32 \<and> unat (etext e) < unat a + unat n \<longrightarrow>
        addressAllowedToProgram e a n)"
proof -
  have m: "addressAllowedToProgram e a n = False
      \<longleftrightarrow> unat (vectors_start e) \<le> unat a \<and> (unat a + unat n) mod 2 ^ 32 \<le> unat (etext e)"
    by (simp add: addressAllowedToProgram_def Let_def word_le_nat_alt unat_plus_mod)
  have w: "wholly_in_updater e a n \<Longrightarrow> unat a + unat n < 2 ^ 32"
  proof -
    assume "wholly_in_updater e a n"
    then have "unat a + unat n \<le> unat (etext e)" by (simp add: wholly_in_updater_def)
    moreover have "unat (etext e) < 2 ^ 32" using unsigned_less [of "etext e"] by simp
    ultimately show ?thesis by simp
  qed
  show ?thesis
    using m w by (auto simp: wholly_in_updater_def)
qed

theorem address_check_modular_witness:
  "wholly_in_updater (sample_env True 0) 0x1000 0x100
   \<and> addressAllowedToProgram (sample_env True 0) 0x1000 0x100 = False
   \<and> unat (0x0F00 :: u32) < unat (vectors_start (sample_env True 0))
   \<and> addressAllowedToProgram (sample_env True 0) 0x0F00 0x200
   \<and> unat (0x3F00 :: u32) + unat (0x200 :: u32) < 2 ^ 32
   \<and> unat (etext (sample_env True 0)) < unat (0x3F00 :: u32) + unat (0x200 :: u32)
   \<and> addressAllowedToProgram (sample_env True 0) 0x3F00 0x200"
proof -
  have a: "wholly_in_updater (sample_env True 0) 0x1000 0x100"
    by (simp add: wholly_in_updater_def sample_env_def)
  have b: "unat (0x0F00 :: u32) < unat (vectors_start (sample_env True 0))"
    by (simp add: sample_env_def)
  have c: "unat (0x3F00 :: u32) + unat (0x200 :: u32) < 2 ^ 32"
    "unat (etext (sample_env True 0)) < unat (0x3F00 :: u32) + unat (0x200 :: u32)"
    by (simp_all add: sample_env_def)
  show ?thesis
    using address_check_modular [of "sample_env True 0" "0x1000" "0x100"]
      address_check_modular [of "sample_env True 0" "0x0F00" "0x200"]
      address_check_modular [of "sample_env True 0" "0x3F00" "0x200"] a b c
    by simp
qed

section \<open>Byte order\<close>

lemma unat_u8_less: "unat (x :: u8) < 256"
  using unsigned_less [of x] by simp

lemma unat_push_u8:
  assumes "n \<le> 24"
  shows "unat (push_bit n (ucast (x :: u8) :: u32)) = unat x * 2 ^ n"
proof -
  have "unat x * 2 ^ n < 2 ^ 8 * 2 ^ n" using unat_u8_less [of x] by simp
  also have "\<dots> = (2 :: nat) ^ (8 + n)" by (simp add: power_add)
  also have "\<dots> \<le> 2 ^ 32" using assms by (intro power_increasing) simp_all
  finally have less: "unat x * 2 ^ n < 2 ^ 32" .
  have "unat (push_bit n (ucast x :: u32)) = take_bit 32 (push_bit n (unat (ucast x :: u32)))"
    by (simp add: unsigned_push_bit_eq)
  also have "\<dots> = take_bit 32 (unat x * 2 ^ n)"
    by (simp only: unat_ucast_u8 push_bit_eq_mult)
  also have "\<dots> = unat x * 2 ^ n"
    using less by (simp only: take_bit_nat_eq_self)
  finally show ?thesis .
qed

lemma or_bytes_disjoint:
  fixes a b c d :: u8
  shows "ucast c AND push_bit 8 (ucast d :: u32) = 0"
    "(ucast c OR push_bit 8 (ucast d)) AND push_bit 16 (ucast b :: u32) = 0"
    "((ucast c OR push_bit 8 (ucast d)) OR push_bit 16 (ucast b)) AND push_bit 24 (ucast a :: u32) = 0"
  by (rule bit_eqI; auto simp: bit_simps dest: bit_imp_le_length)+

lemma unat_bytes_le:
  fixes a b c d :: u8
  shows "unat (ucast d OR push_bit 8 (ucast c) OR push_bit 16 (ucast b) OR push_bit 24 (ucast a) :: u32)
         = unat a * 2 ^ 24 + unat b * 2 ^ 16 + unat c * 2 ^ 8 + unat d"
proof -
  have "(ucast d OR push_bit 8 (ucast c) OR push_bit 16 (ucast b) OR push_bit 24 (ucast a) :: u32)
      = ((ucast d OR push_bit 8 (ucast c)) OR push_bit 16 (ucast b)) OR push_bit 24 (ucast a)"
    by (simp add: ac_simps)
  also have "\<dots> = ((ucast d + push_bit 8 (ucast c)) + push_bit 16 (ucast b)) + push_bit 24 (ucast a)"
    by (simp only: disjunctive_add_eq_or [OF or_bytes_disjoint(1)]
        disjunctive_add_eq_or [OF or_bytes_disjoint(2)]
        disjunctive_add_eq_or [OF or_bytes_disjoint(3)])
  finally have e: "(ucast d OR push_bit 8 (ucast c) OR push_bit 16 (ucast b) OR push_bit 24 (ucast a) :: u32)
      = ((ucast d + push_bit 8 (ucast c)) + push_bit 16 (ucast b)) + push_bit 24 (ucast a)" .
  have "unat a * 2 ^ 24 + unat b * 2 ^ 16 + unat c * 2 ^ 8 + unat d < 2 ^ 32"
    using unat_u8_less [of a] unat_u8_less [of b] unat_u8_less [of c] unat_u8_less [of d] by simp
  then show ?thesis
    unfolding e
    by (simp add: unat_word_ariths unat_push_u8 unat_ucast_u8)
qed

lemma streamToUIn32_be:
  "unat (streamToUIn32 b off) =
     unat (b off) * 2 ^ 24 + unat (b (off + 1)) * 2 ^ 16 + unat (b (off + 2)) * 2 ^ 8
     + unat (b (off + 3))"
  unfolding streamToUIn32_def
  using unat_bytes_le [of "b (off + 3)" "b (off + 2)" "b (off + 1)" "b off"]
  by (simp add: ac_simps)

lemma load_u32_le:
  "unat (load_u32 m a) =
     unat (m a) + unat (m (a + 1)) * 2 ^ 8 + unat (m (a + 2)) * 2 ^ 16 + unat (m (a + 3)) * 2 ^ 24"
  unfolding load_u32_def
  using unat_bytes_le [of "m a" "m (a + 1)" "m (a + 2)" "m (a + 3)"]
  by simp

lemma buf_u32_le:
  "unat (buf_u32 b off) =
     unat (b off) + unat (b (off + 1)) * 2 ^ 8 + unat (b (off + 2)) * 2 ^ 16
     + unat (b (off + 3)) * 2 ^ 24"
  unfolding buf_u32_def
  using unat_bytes_le [of "b off" "b (off + 1)" "b (off + 2)" "b (off + 3)"]
  by simp

section \<open>Committing the staging buffer\<close>

lemma bytes_of_0: "bytes_of buf 0 n = map buf [0..<n]"
  by (simp add: bytes_of_def)

lemma program_unlocked:
  assumes "deviceLocked s = DEVICE_UNLOCKED"
    and "addressAllowedToProgram e (streamToUIn32 data 7) (streamToUIn32 data 3)"
  shows "program e s data =
    (if crc32 e 0xFFFFFFFF (map (ramBuffer s) [0..<unat (streamToUIn32 data 3)])
          = streamToUIn32 data 11
     then s\<lparr>lastError := fst (iapProgram e (flash s) (streamToUIn32 data 7)
                               (map (ramBuffer s) [0..<unat (streamToUIn32 data 3)])),
            flash := snd (iapProgram e (flash s) (streamToUIn32 data 7)
                               (map (ramBuffer s) [0..<unat (streamToUIn32 data 3)])),
            ramLocation := 0\<rparr>
     else s\<lparr>lastError := UDP_CRC_EROR, ramLocation := 0\<rparr>)"
  using assms by (simp add: program_def Let_def bytes_of_0 split: prod.splits)

text \<open>
  Claim C6.  A \<open>PROGRAM\<close> frame that arrives while the device is unlocked, for a range
  that \<open>addressAllowedToProgram\<close> admits, is checked against the checksum in its bytes
  11 to 14 (payload bytes 8 to 11), read most significant byte first.  If the CRC with
  seed 0xFFFFFFFF of the first \<open>count\<close> bytes of the staging buffer differs, the answer
  is NACK, \<open>lastError\<close> is \<open>UDP_CRC_EROR\<close>, the flash is untouched and the cursor is
  0.  If it agrees, \<open>iapProgram\<close> is called once with the address of the frame and
  those \<open>count\<close> bytes, its status becomes \<open>lastError\<close>, its memory becomes the
  flash, and the cursor is 0.
\<close>

theorem program_checks_crc:
  assumes "deviceLocked s = DEVICE_UNLOCKED" and "data 2 = UPD_PROGRAM"
    and "addressAllowedToProgram e (streamToUIn32 data 7) (streamToUIn32 data 3)"
  shows "unat (streamToUIn32 data 11) =
           unat (data 11) * 2 ^ 24 + unat (data 12) * 2 ^ 16 + unat (data 13) * 2 ^ 8
           + unat (data 14)
       \<and> (if crc32 e 0xFFFFFFFF (map (ramBuffer s) [0..<unat (streamToUIn32 data 3)])
               \<noteq> streamToUIn32 data 11
          then fst (handleMemoryRequests e s data) = T_NACK_PDU
             \<and> lastError (snd (handleMemoryRequests e s data)) = UDP_CRC_EROR
             \<and> flash (snd (handleMemoryRequests e s data)) = flash s
             \<and> ramLocation (snd (handleMemoryRequests e s data)) = 0
          else (lastError (snd (handleMemoryRequests e s data)),
                flash (snd (handleMemoryRequests e s data)))
               = iapProgram e (flash s) (streamToUIn32 data 7)
                   (map (ramBuffer s) [0..<unat (streamToUIn32 data 3)])
             \<and> ramLocation (snd (handleMemoryRequests e s data)) = 0)"
proof -
  let ?t = "s\<lparr>PIN_INFO := \<not> PIN_INFO s\<rparr>"
  have u: "deviceLocked ?t = DEVICE_UNLOCKED" using assms(1) by simp
  have d: "snd (handleMemoryRequests e s data) = program e ?t data"
    using assms(2) by (simp add: handle_snd dispatch_program)
  have be: "unat (streamToUIn32 data 11) =
           unat (data 11) * 2 ^ 24 + unat (data 12) * 2 ^ 16 + unat (data 13) * 2 ^ 8
           + unat (data 14)"
    using streamToUIn32_be [of data 11] by simp
  show ?thesis
    unfolding handle_fst unfolding d
    unfolding program_unlocked [where s = ?t and data = data and e = e, OF u assms(3)]
    using be by (simp add: UDP_CRC_EROR_def IAP_SUCCESS_def)
qed

lemma staged_state_fields:
  "deviceLocked staged_state = DEVICE_UNLOCKED" "ramLocation staged_state = 3"
  "ramBuffer staged_state 0 = 0xAA" "ramBuffer staged_state (Suc 0) = 0xBB"
  "ramBuffer staged_state 2 = 0xCC" "flash staged_state = (\<lambda>a. 0xFF)"
proof -
  have t: "[0..<3] = [0, 1, 2]" by (simp add: upt_rec)
  have u: "deviceLocked (unlocked_state\<lparr>PIN_INFO := \<not> PIN_INFO unlocked_state\<rparr>) = DEVICE_UNLOCKED"
    by (simp add: unlocked_state_fields)
  have s: "staged_state =
     send_data (sample_env True 0) (unlocked_state\<lparr>PIN_INFO := \<not> PIN_INFO unlocked_state\<rparr>)
       (frame_of [3, 0, 1, 0xAA, 0xBB, 0xCC])"
    by (simp add: staged_state_def handle_snd dispatch_def frame_of_def opcode_defs)
  show "deviceLocked staged_state = DEVICE_UNLOCKED" "ramLocation staged_state = 3"
    "ramBuffer staged_state 0 = 0xAA" "ramBuffer staged_state (Suc 0) = 0xBB"
    "ramBuffer staged_state 2 = 0xCC" "flash staged_state = (\<lambda>a. 0xFF)"
    unfolding s
    by (simp_all add: send_data_def Let_def u unlocked_state_fields frame_of_def
        sizeof_ramBuffer_def bytes_of_def t memcpy_apply)
qed

lemma sample_crc: "bitwise_crc32 0xFFFFFFFF [0xAA, 0xBB, 0xCC] = 0x41B207B3"
  by (simp add: bitwise_crc32_def crc32_byte_def crc32_bit_def)

lemma program_frame_fields:
  "program_frame 2 = UPD_PROGRAM" "streamToUIn32 program_frame 3 = 3"
  "streamToUIn32 program_frame 7 = 0x5000" "streamToUIn32 program_frame 11 = 0x41B207B3"
  "bad_crc_frame 2 = UPD_PROGRAM" "streamToUIn32 bad_crc_frame 3 = 3"
  "streamToUIn32 bad_crc_frame 7 = 0x5000" "streamToUIn32 bad_crc_frame 11 = 0x41B207B2"
  by (simp_all add: program_frame_def bad_crc_frame_def frame_of_def streamToUIn32_def opcode_defs)

theorem program_checks_crc_witness:
  "deviceLocked staged_state = DEVICE_UNLOCKED
   \<and> bad_crc_frame 2 = UPD_PROGRAM \<and> program_frame 2 = UPD_PROGRAM
   \<and> addressAllowedToProgram (sample_env True 0) (streamToUIn32 bad_crc_frame 7)
        (streamToUIn32 bad_crc_frame 3)
   \<and> addressAllowedToProgram (sample_env True 0) (streamToUIn32 program_frame 7)
        (streamToUIn32 program_frame 3)
   \<and> fst (handleMemoryRequests (sample_env True 0) staged_state bad_crc_frame) = T_NACK_PDU
   \<and> lastError (snd (handleMemoryRequests (sample_env True 0) staged_state bad_crc_frame)) = 0x101
   \<and> flash (snd (handleMemoryRequests (sample_env True 0) staged_state bad_crc_frame))
       = flash staged_state
   \<and> ramLocation (snd (handleMemoryRequests (sample_env True 0) staged_state bad_crc_frame)) = 0
   \<and> lastError (snd (handleMemoryRequests (sample_env True 0) staged_state program_frame)) = 0
   \<and> flash (snd (handleMemoryRequests (sample_env True 0) staged_state program_frame))
       = mem_store (flash staged_state) 0x5000 [0xAA, 0xBB, 0xCC]
   \<and> ramLocation (snd (handleMemoryRequests (sample_env True 0) staged_state program_frame)) = 0"
proof -
  have t: "[0..<3] = [0, 1, 2]" by (simp add: upt_rec)
  have a: "addressAllowedToProgram (sample_env True 0) (streamToUIn32 bad_crc_frame 7)
        (streamToUIn32 bad_crc_frame 3)"
    "addressAllowedToProgram (sample_env True 0) (streamToUIn32 program_frame 7)
        (streamToUIn32 program_frame 3)"
    by (simp_all add: program_frame_fields addressAllowedToProgram_def sample_env_def)
  have c: "crc32 (sample_env True 0) 0xFFFFFFFF [0xAA, 0xBB, 0xCC] = 0x41B207B3"
    using sample_crc by (simp add: sample_env_def)
  have p: "iapProgram (sample_env True 0) m x bs = (0, mem_store m x bs)" for m x bs
    by (simp add: sample_env_def)
  show ?thesis
    using program_checks_crc
        [where s = staged_state and data = bad_crc_frame and e = "sample_env True 0",
         OF staged_state_fields(1) program_frame_fields(5) a(1)]
      program_checks_crc
        [where s = staged_state and data = program_frame and e = "sample_env True 0",
         OF staged_state_fields(1) program_frame_fields(1) a(2)]
      a
    by (simp add: program_frame_fields staged_state_fields t c p UDP_CRC_EROR_def)
qed

section \<open>Validating a boot descriptor\<close>























end
